theory Spec2Isabelle
  imports Complex_Main
begin

section \<open>Python values, errors and call arguments\<close>

text \<open>
  The module \<^verbatim>\<open>navigator_auth/exceptions.pyx\<close> is a Cython file: a base class
  \<^verbatim>\<open>AuthException(Exception)\<close> and the classes derived from it. Its constructors
  discriminate their arguments by Python type, so the values a caller can pass are
  modelled as a datatype of the builtin scalars: \<^verbatim>\<open>None\<close>, a \<^verbatim>\<open>bool\<close>, an
  (unbounded) \<^verbatim>\<open>int\<close>, a \<^verbatim>\<open>float\<close> and a \<^verbatim>\<open>str\<close>. A finite float is given
  by the real number it denotes; the two infinities and NaN are values of their own.
\<close>

datatype pyfloat = Finite real | PosInf | NegInf | NaN

datatype pyval = PNone | PBool bool | PInt int | PFloat pyfloat | PStr string

text \<open>The exceptions that argument processing of a constructor can raise.\<close>

datatype py_error = TypeError | OverflowError | ValueError

text \<open>
  The keyword arguments of a call, in the order written. Python rejects a call that
  repeats a keyword, so the keys of a real call are distinct; lookups take the first
  binding.
\<close>

type_synonym kwargs = "(string \<times> pyval) list"

text \<open>The classes of the module, in source order.\<close>

datatype kind =
    AuthException
  | ConfigError
  | UserNotFound
  | Unauthorized
  | InvalidAuth
  | FailedAuth
  | Forbidden
  | AuthExpired

text \<open>
  An instance: its class, \<^verbatim>\<open>args\<close> as set by \<^verbatim>\<open>Exception.__init__\<close>, and the three
  attributes assigned by \<^verbatim>\<open>AuthException.__init__\<close>. Attributes are untyped slots of
  the instance, hence \<^typ>\<open>pyval\<close>.
\<close>

record auth_exception =
  cls :: kind
  args :: "pyval list"
  message :: pyval
  status :: pyval
  stacktrace :: pyval

text \<open>The \<open>i\<close>-th positional argument of a call, when there is one.\<close>

definition positional :: "pyval list \<Rightarrow> nat \<Rightarrow> pyval option" where
  "positional pos i = (if i < length pos then Some (pos ! i) else None)"

text \<open>
  Binding one named parameter: a positional value and a keyword of the same name are
  a \<^verbatim>\<open>TypeError\<close> (multiple values); with neither, the default is taken, and a
  parameter without default is a \<^verbatim>\<open>TypeError\<close> (missing argument).
\<close>

definition bind_param :: "string \<Rightarrow> pyval option \<Rightarrow> kwargs \<Rightarrow> pyval option \<Rightarrow> py_error + pyval" where
  "bind_param name p kw dflt =
     (case p of
        Some v \<Rightarrow> (if map_of kw name = None then Inr v else Inl TypeError)
      | None \<Rightarrow>
          (case map_of kw name of
             Some v \<Rightarrow> Inr v
           | None \<Rightarrow> (case dflt of Some d \<Rightarrow> Inr d | None \<Rightarrow> Inl TypeError)))"

text \<open>\<^verbatim>\<open>float.__int__\<close> drops the fractional part, rounding towards zero.\<close>

definition float_trunc :: "real \<Rightarrow> int" where
  "float_trunc x = (if 0 \<le> x then \<lfloor>x\<rfloor> else \<lceil>x\<rceil>)"

text \<open>A C \<^verbatim>\<open>int\<close> has 32 bits; a Python integer out of its range raises \<^verbatim>\<open>OverflowError\<close>.\<close>

definition to_c_int :: "int \<Rightarrow> py_error + int" where
  "to_c_int i = (if - (2 ^ 31) \<le> i \<and> i < 2 ^ 31 then Inr i else Inl OverflowError)"

text \<open>
  A parameter declared \<^verbatim>\<open>int status\<close> is a C \<^verbatim>\<open>int\<close>. A Python \<^verbatim>\<open>int\<close> is
  converted as it is and a \<^verbatim>\<open>bool\<close> to 0 or 1. Any other object is first turned
  into an integer by its \<^verbatim>\<open>__int__\<close>: a finite \<^verbatim>\<open>float\<close> is truncated, an infinity
  raises \<^verbatim>\<open>OverflowError\<close> and NaN raises \<^verbatim>\<open>ValueError\<close>; \<^verbatim>\<open>None\<close> and a
  \<^verbatim>\<open>str\<close> have no \<^verbatim>\<open>__int__\<close> and raise \<^verbatim>\<open>TypeError\<close>.
\<close>

definition as_c_int :: "pyval \<Rightarrow> py_error + int" where
  "as_c_int v =
     (case v of
        PInt i \<Rightarrow> to_c_int i
      | PBool b \<Rightarrow> Inr (if b then 1 else 0)
      | PFloat f \<Rightarrow>
          (case f of
             Finite x \<Rightarrow> to_c_int (float_trunc x)
           | PosInf \<Rightarrow> Inl OverflowError
           | NegInf \<Rightarrow> Inl OverflowError
           | NaN \<Rightarrow> Inl ValueError)
      | PNone \<Rightarrow> Inl TypeError
      | PStr s \<Rightarrow> Inl TypeError)"

text \<open>
  A parameter declared \<^verbatim>\<open>str message\<close> accepts a \<^verbatim>\<open>str\<close> and also \<^verbatim>\<open>None\<close>
  (the declaration has no \<^verbatim>\<open>not None\<close>); anything else raises \<^verbatim>\<open>TypeError\<close>.
\<close>

definition is_str_or_None :: "pyval \<Rightarrow> bool" where
  "is_str_or_None v =
     (case v of
        PNone \<Rightarrow> True
      | PStr s \<Rightarrow> True
      | PBool b \<Rightarrow> False
      | PInt i \<Rightarrow> False
      | PFloat f \<Rightarrow> False)"

text \<open>Truth value of an object, and the expression \<^verbatim>\<open>a or b\<close>.\<close>

definition truthy :: "pyval \<Rightarrow> bool" where
  "truthy v =
     (case v of
        PNone \<Rightarrow> False
      | PBool b \<Rightarrow> b
      | PInt i \<Rightarrow> i \<noteq> 0
      | PFloat f \<Rightarrow> f \<noteq> Finite 0
      | PStr s \<Rightarrow> s \<noteq> [])"

definition py_or :: "pyval \<Rightarrow> pyval \<Rightarrow> pyval" where
  "py_or a b = (if truthy a then a else b)"

section \<open>The base class\<close>

text \<open>
  \<^verbatim>\<open>def __init__(self, str message, int status = 400, **kwargs)\<close>. At most two
  positional arguments; \<^verbatim>\<open>message\<close> is required; keywords other than the two named
  parameters are collected in \<^verbatim>\<open>kwargs\<close>. The C conversion of \<^verbatim>\<open>status\<close> is part
  of argument unpacking and so comes before the type test of \<^verbatim>\<open>message\<close>. The body
  then runs \<^verbatim>\<open>super().__init__(message)\<close>, which sets \<^verbatim>\<open>args\<close>, and assigns
  \<^verbatim>\<open>stacktrace\<close>, \<^verbatim>\<open>message\<close> and \<^verbatim>\<open>status\<close>. The first parameter of the model is
  the class of the instance being initialised.
\<close>

definition AuthException_init :: "kind \<Rightarrow> pyval list \<Rightarrow> kwargs \<Rightarrow> py_error + auth_exception" where
  "AuthException_init c pos kw =
     (if 2 < length pos then Inl TypeError
      else
        case bind_param ''message'' (positional pos 0) kw None of
          Inl err \<Rightarrow> Inl err
        | Inr msg \<Rightarrow>
            (case bind_param ''status'' (positional pos 1) kw (Some (PInt 400)) of
               Inl err \<Rightarrow> Inl err
             | Inr st \<Rightarrow>
                 (case as_c_int st of
                    Inl err \<Rightarrow> Inl err
                  | Inr n \<Rightarrow>
                      if \<not> is_str_or_None msg then Inl TypeError
                      else
                        let rest = filter (\<lambda>(k, v). k \<noteq> ''message'' \<and> k \<noteq> ''status'') kw
                        in Inr \<lparr> cls = c,
                                 args = [msg],
                                 message = msg,
                                 status = PInt n,
                                 stacktrace =
                                   (case map_of rest ''stacktrace'' of
                                      Some v \<Rightarrow> v
                                    | None \<Rightarrow> PNone) \<rparr>)))"

text \<open>\<^verbatim>\<open>def get(self): return self.message\<close>; the instance is returned beside the result.\<close>

definition AuthException_get :: "auth_exception \<Rightarrow> pyval \<times> auth_exception" where
  "AuthException_get self = (message self, self)"

text \<open>Decimal digits of a natural number and of an integer, as \<^verbatim>\<open>str\<close> prints them.\<close>

fun string_of_nat :: "nat \<Rightarrow> string" where
  "string_of_nat n =
     (if n < 10 then [char_of (48 + n)]
      else string_of_nat (n div 10) @ [char_of (48 + n mod 10)])"

definition string_of_int :: "int \<Rightarrow> string" where
  "string_of_int i = (if i < 0 then CHR ''-'' # string_of_nat (nat (- i)) else string_of_nat (nat i))"

text \<open>
  What a replacement field \<^verbatim>\<open>{v}\<close> of an f-string renders for a value. The digits
  that Python prints for a finite float are computed by the interpreter, not by this
  module: they are the parameter \<open>float_repr\<close>.
\<close>

definition format_value :: "(real \<Rightarrow> string) \<Rightarrow> pyval \<Rightarrow> string" where
  "format_value float_repr v =
     (case v of
        PNone \<Rightarrow> ''None''
      | PBool b \<Rightarrow> (if b then ''True'' else ''False'')
      | PInt i \<Rightarrow> string_of_int i
      | PFloat f \<Rightarrow>
          (case f of
             Finite x \<Rightarrow> float_repr x
           | PosInf \<Rightarrow> ''inf''
           | NegInf \<Rightarrow> ''-inf''
           | NaN \<Rightarrow> ''nan'')
      | PStr s \<Rightarrow> s)"

text \<open>\<^verbatim>\<open>__name__\<close> of the module compiled from \<^verbatim>\<open>navigator_auth/exceptions.pyx\<close>.\<close>

definition py_module_name :: string where
  "py_module_name = ''navigator_auth.exceptions''"

text \<open>\<^verbatim>\<open>def __str__(self): return f"{__name__}: {self.message}"\<close>.\<close>

definition AuthException_str :: "(real \<Rightarrow> string) \<Rightarrow> auth_exception \<Rightarrow> string \<times> auth_exception" where
  "AuthException_str float_repr self =
     (py_module_name @ '': '' @ format_value float_repr (message self), self)"

section \<open>The derived classes\<close>

text \<open>
  Every derived class has the signature \<^verbatim>\<open>def __init__(self, str message = None)\<close>:
  at most one positional argument, no keyword other than \<^verbatim>\<open>message\<close>, and the same
  type test of \<^verbatim>\<open>message\<close> as in the base class.
\<close>

definition bind_message_only :: "pyval list \<Rightarrow> kwargs \<Rightarrow> py_error + pyval" where
  "bind_message_only pos kw =
     (if 1 < length pos then Inl TypeError
      else if filter (\<lambda>(k, v). k \<noteq> ''message'') kw \<noteq> [] then Inl TypeError
      else
        case bind_param ''message'' (positional pos 0) kw (Some PNone) of
          Inl err \<Rightarrow> Inl err
        | Inr msg \<Rightarrow> (if is_str_or_None msg then Inr msg else Inl TypeError))"

text \<open>
  Each body is one call \<^verbatim>\<open>super().__init__(message or "<default>", status=<code>)\<close>, which goes
  through the argument processing of the base class again.
\<close>

definition ConfigError_init :: "pyval list \<Rightarrow> kwargs \<Rightarrow> py_error + auth_exception" where
  "ConfigError_init pos kw =
     (case bind_message_only pos kw of
        Inl err \<Rightarrow> Inl err
      | Inr msg \<Rightarrow>
          AuthException_init ConfigError
            [py_or msg (PStr ''Auth Configuration Error.'')] [(''status'', PInt 500)])"

definition UserNotFound_init :: "pyval list \<Rightarrow> kwargs \<Rightarrow> py_error + auth_exception" where
  "UserNotFound_init pos kw =
     (case bind_message_only pos kw of
        Inl err \<Rightarrow> Inl err
      | Inr msg \<Rightarrow>
          AuthException_init UserNotFound
            [py_or msg (PStr ''User doesn't exists.'')] [(''status'', PInt 404)])"

definition Unauthorized_init :: "pyval list \<Rightarrow> kwargs \<Rightarrow> py_error + auth_exception" where
  "Unauthorized_init pos kw =
     (case bind_message_only pos kw of
        Inl err \<Rightarrow> Inl err
      | Inr msg \<Rightarrow>
          AuthException_init Unauthorized
            [py_or msg (PStr ''Unauthorized'')] [(''status'', PInt 401)])"

definition InvalidAuth_init :: "pyval list \<Rightarrow> kwargs \<Rightarrow> py_error + auth_exception" where
  "InvalidAuth_init pos kw =
     (case bind_message_only pos kw of
        Inl err \<Rightarrow> Inl err
      | Inr msg \<Rightarrow>
          AuthException_init InvalidAuth
            [py_or msg (PStr ''Invalid Authentication'')] [(''status'', PInt 401)])"

definition FailedAuth_init :: "pyval list \<Rightarrow> kwargs \<Rightarrow> py_error + auth_exception" where
  "FailedAuth_init pos kw =
     (case bind_message_only pos kw of
        Inl err \<Rightarrow> Inl err
      | Inr msg \<Rightarrow>
          AuthException_init FailedAuth
            [py_or msg (PStr ''Failed Authorization'')] [(''status'', PInt 403)])"

definition Forbidden_init :: "pyval list \<Rightarrow> kwargs \<Rightarrow> py_error + auth_exception" where
  "Forbidden_init pos kw =
     (case bind_message_only pos kw of
        Inl err \<Rightarrow> Inl err
      | Inr msg \<Rightarrow>
          AuthException_init Forbidden
            [py_or msg (PStr ''Forbidden'')] [(''status'', PInt 403)])"

definition AuthExpired_init :: "pyval list \<Rightarrow> kwargs \<Rightarrow> py_error + auth_exception" where
  "AuthExpired_init pos kw =
     (case bind_message_only pos kw of
        Inl err \<Rightarrow> Inl err
      | Inr msg \<Rightarrow>
          AuthException_init AuthExpired
            [py_or msg (PStr ''Gone: Authentication Expired.'')] [(''status'', PInt 410)])"

text \<open>Calling a class with positional and keyword arguments runs that class's \<^verbatim>\<open>__init__\<close>.\<close>

fun construct :: "kind \<Rightarrow> pyval list \<Rightarrow> kwargs \<Rightarrow> py_error + auth_exception" where
  "construct AuthException pos kw = AuthException_init AuthException pos kw"
| "construct ConfigError pos kw = ConfigError_init pos kw"
| "construct UserNotFound pos kw = UserNotFound_init pos kw"
| "construct Unauthorized pos kw = Unauthorized_init pos kw"
| "construct InvalidAuth pos kw = InvalidAuth_init pos kw"
| "construct FailedAuth pos kw = FailedAuth_init pos kw"
| "construct Forbidden pos kw = Forbidden_init pos kw"
| "construct AuthExpired pos kw = AuthExpired_init pos kw"

text \<open>The classes derived from \<^verbatim>\<open>AuthException\<close>, and all classes of the module.\<close>

definition subtypes :: "kind list" where
  "subtypes = [ConfigError, UserNotFound, Unauthorized, InvalidAuth, FailedAuth, Forbidden, AuthExpired]"

definition error_types :: "kind list" where
  "error_types = AuthException # subtypes"

section \<open>The documented defaults\<close>

text \<open>
  The table of the data model, as documented: default message and status of each named
  subtype. The base class has no row. The constructors above are compared with it.
\<close>

fun spec_default :: "kind \<Rightarrow> (string \<times> int) option" where
  "spec_default AuthException = None"
| "spec_default ConfigError = Some (''Auth Configuration Error.'', 500)"
| "spec_default UserNotFound = Some (''User doesn't exists.'', 404)"
| "spec_default Unauthorized = Some (''Unauthorized'', 401)"
| "spec_default InvalidAuth = Some (''Invalid Authentication'', 401)"
| "spec_default FailedAuth = Some (''Failed Authorization'', 403)"
| "spec_default Forbidden = Some (''Forbidden'', 403)"
| "spec_default AuthExpired = Some (''Gone: Authentication Expired.'', 410)"

section \<open>Facts about argument processing\<close>

lemmas init_defs = ConfigError_init_def UserNotFound_init_def Unauthorized_init_def
  InvalidAuth_init_def FailedAuth_init_def Forbidden_init_def AuthExpired_init_def

lemmas arg_defs = bind_message_only_def AuthException_init_def bind_param_def positional_def
  as_c_int_def to_c_int_def is_str_or_None_def truthy_def py_or_def

lemma construct_subtype:
  assumes "spec_default k = Some (m, s)"
  shows "construct k pos kw =
    (case bind_message_only pos kw of
       Inl err \<Rightarrow> Inl err
     | Inr msg \<Rightarrow> AuthException_init k [py_or msg (PStr m)] [(''status'', PInt s)])"
  using assms by (cases k) (auto simp: init_defs)

lemma spec_default_bounds:
  assumes "spec_default k = Some (m, s)"
  shows "m \<noteq> [] \<and> - (2 ^ 31) \<le> s \<and> s < 2 ^ 31"
  using assms by (cases k) auto

lemma init_one_message:
  assumes "is_str_or_None msg" and "- (2 ^ 31) \<le> s" and "s < 2 ^ 31"
  shows "AuthException_init k [msg] [(''status'', PInt s)] =
    Inr \<lparr>cls = k, args = [msg], message = msg, status = PInt s, stacktrace = PNone\<rparr>"
  using assms
  by (simp add: AuthException_init_def bind_param_def positional_def as_c_int_def to_c_int_def)

lemma bind_message_only_str:
  assumes "bind_message_only pos kw = Inr msg"
  shows "is_str_or_None msg"
  using assms by (auto simp: bind_message_only_def split: if_splits sum.splits)

lemma py_or_default:
  assumes "is_str_or_None msg" and "m \<noteq> []"
  shows "\<exists>t. py_or msg (PStr m) = PStr t \<and> t \<noteq> []"
  using assms by (cases msg) (auto simp: py_or_def truthy_def is_str_or_None_def)

lemma py_or_is_str: "is_str_or_None msg \<Longrightarrow> is_str_or_None (py_or msg (PStr m))"
  by (cases msg) (auto simp: py_or_def truthy_def is_str_or_None_def)

lemma construct_subtype_result:
  assumes "spec_default k = Some (m, s)" and "construct k pos kw = Inr e"
  shows "\<exists>msg. bind_message_only pos kw = Inr msg \<and>
           e = \<lparr>cls = k, args = [py_or msg (PStr m)], message = py_or msg (PStr m),
                 status = PInt s, stacktrace = PNone\<rparr>"
proof (cases "bind_message_only pos kw")
  case (Inl err)
  with assms show ?thesis by (simp add: construct_subtype)
next
  case (Inr msg)
  then have "is_str_or_None (py_or msg (PStr m))"
    by (simp add: bind_message_only_str py_or_is_str)
  moreover from assms(1) have "- (2 ^ 31) \<le> s" and "s < 2 ^ 31"
    using spec_default_bounds [of k m s] by blast+
  ultimately have "AuthException_init k [py_or msg (PStr m)] [(''status'', PInt s)] =
      Inr \<lparr>cls = k, args = [py_or msg (PStr m)], message = py_or msg (PStr m),
           status = PInt s, stacktrace = PNone\<rparr>"
    by (rule init_one_message)
  with assms Inr show ?thesis
    by (simp add: construct_subtype)
qed


lemma keyword_not_message:
  assumes "map_of kw key \<noteq> None" and "key \<noteq> ''message''"
  shows "filter (\<lambda>(k, v). k \<noteq> ''message'') kw \<noteq> []"
proof -
  from assms(1) obtain v where "(key, v) \<in> set kw"
    by (auto dest: map_of_SomeD)
  with assms(2) show ?thesis
    by (auto simp: filter_empty_conv)
qed

lemma subtype_unexpected_keyword:
  assumes "spec_default k = Some (m, s)" and "map_of kw key \<noteq> None" and "key \<noteq> ''message''"
  shows "construct k pos kw = Inl TypeError"
  using keyword_not_message [OF assms(2,3)]
  by (simp add: construct_subtype [OF assms(1)] bind_message_only_def)

lemma subtype_too_many_positional:
  assumes "spec_default k = Some (m, s)" and "2 \<le> length pos"
  shows "construct k pos kw = Inl TypeError"
  using assms(2) by (simp add: construct_subtype [OF assms(1)] bind_message_only_def)

lemma map_of_rest:
  assumes "key \<noteq> ''message''" and "key \<noteq> ''status''"
  shows "map_of (filter (\<lambda>(k, v). k \<noteq> ''message'' \<and> k \<noteq> ''status'') kw) key = map_of kw key"
  using assms by (induction kw) auto

lemma base_result:
  assumes "construct AuthException pos kw = Inr e"
  shows "\<exists>msg st n. bind_param ''message'' (positional pos 0) kw None = Inr msg \<and>
           bind_param ''status'' (positional pos 1) kw (Some (PInt 400)) = Inr st \<and>
           as_c_int st = Inr n \<and> is_str_or_None msg \<and> length pos \<le> 2 \<and>
           e = \<lparr>cls = AuthException, args = [msg], message = msg, status = PInt n,
                 stacktrace = (case map_of kw ''stacktrace'' of Some v \<Rightarrow> v | None \<Rightarrow> PNone)\<rparr>"
  using assms
  by (auto simp: AuthException_init_def map_of_rest split: if_splits sum.splits)

lemma as_c_int_range:
  assumes "as_c_int v = Inr n"
  shows "- (2 ^ 31) \<le> n \<and> n < 2 ^ 31"
  using assms
  by (cases v) (auto simp: as_c_int_def to_c_int_def split: if_splits pyfloat.splits)

lemma constructed_message:
  assumes "construct k pos kw = Inr e"
  shows "is_str_or_None (message e)"
proof (cases "spec_default k")
  case None
  then have "k = AuthException" by (cases k) simp_all
  with assms base_result [of pos kw e] show ?thesis by auto
next
  case (Some d)
  then obtain m s where "spec_default k = Some (m, s)" by (cases d) simp
  from construct_subtype_result [OF this assms] show ?thesis
    by (auto simp: bind_message_only_str py_or_is_str)
qed

lemma AuthException_init_lookup:
  "AuthException_init c pos kw =
     (if 2 < length pos then Inl TypeError
      else
        case bind_param ''message'' (positional pos 0) kw None of
          Inl err \<Rightarrow> Inl err
        | Inr msg \<Rightarrow>
            (case bind_param ''status'' (positional pos 1) kw (Some (PInt 400)) of
               Inl err \<Rightarrow> Inl err
             | Inr st \<Rightarrow>
                 (case as_c_int st of
                    Inl err \<Rightarrow> Inl err
                  | Inr n \<Rightarrow>
                      if \<not> is_str_or_None msg then Inl TypeError
                      else Inr \<lparr>cls = c, args = [msg], message = msg, status = PInt n,
                                stacktrace =
                                  (case map_of kw ''stacktrace'' of
                                     Some v \<Rightarrow> v
                                   | None \<Rightarrow> PNone)\<rparr>)))"
  by (simp add: AuthException_init_def Let_def map_of_rest split: sum.splits)

lemma bind_param_append:
  assumes "map_of extra name = None"
  shows "bind_param name p (kw @ extra) dflt = bind_param name p kw dflt"
proof -
  from assms have "map_of (kw @ extra) name = map_of kw name"
    by (simp add: map_add_def split: option.splits)
  then show ?thesis by (simp only: bind_param_def)
qed


section \<open>Construction with defaults\<close>

text \<open>
  Claim C2. Every named subtype, constructed with no arguments, has exactly the default
  message and status of its row in the documented table (and no stacktrace).
\<close>

theorem construct_no_args_defaults:
  assumes "spec_default k = Some (m, s)"
  shows "construct k [] [] =
    Inr \<lparr>cls = k, args = [PStr m], message = PStr m, status = PInt s, stacktrace = PNone\<rparr>"
  using assms by (cases k) (auto simp: init_defs arg_defs)

theorem construct_no_args_defaults_witness:
  "spec_default UserNotFound = Some (''User doesn't exists.'', 404)
   \<and> construct UserNotFound [] [] =
       Inr \<lparr>cls = UserNotFound, args = [PStr ''User doesn't exists.''],
            message = PStr ''User doesn't exists.'', status = PInt 404, stacktrace = PNone\<rparr>"
proof -
  have h: "spec_default UserNotFound = Some (''User doesn't exists.'', 404)" by simp
  show ?thesis using h construct_no_args_defaults [OF h] by simp
qed

text \<open>
  Claim C4. Every named subtype, constructed with an explicit non-empty message (given
  positionally or as the keyword \<^verbatim>\<open>message\<close>), stores that message and keeps its
  default status.
\<close>

theorem construct_explicit_message:
  assumes "spec_default k = Some (m, s)" and "t \<noteq> []"
  shows "construct k [PStr t] [] =
      Inr \<lparr>cls = k, args = [PStr t], message = PStr t, status = PInt s, stacktrace = PNone\<rparr>
    \<and> construct k [] [(''message'', PStr t)] =
      Inr \<lparr>cls = k, args = [PStr t], message = PStr t, status = PInt s, stacktrace = PNone\<rparr>"
  using assms by (cases k) (auto simp: init_defs arg_defs)

theorem construct_explicit_message_witness:
  "spec_default Forbidden = Some (''Forbidden'', 403) \<and> ''nope'' \<noteq> []
   \<and> construct Forbidden [PStr ''nope''] [] =
       Inr \<lparr>cls = Forbidden, args = [PStr ''nope''], message = PStr ''nope'',
            status = PInt 403, stacktrace = PNone\<rparr>
   \<and> construct Forbidden [] [(''message'', PStr ''nope'')] =
       Inr \<lparr>cls = Forbidden, args = [PStr ''nope''], message = PStr ''nope'',
            status = PInt 403, stacktrace = PNone\<rparr>"
proof -
  have h: "spec_default Forbidden = Some (''Forbidden'', 403)" by simp
  have t: "''nope'' \<noteq> []" by simp
  show ?thesis using h t construct_explicit_message [OF h t] by simp
qed

text \<open>
  Claim C5. For every named subtype a message that is omitted, \<^verbatim>\<open>None\<close> or the empty
  string is replaced by the subtype's default message, and the message of every subtype
  instance, however constructed, is a non-empty string.
\<close>

theorem construct_message_default_nonempty:
  assumes "spec_default k = Some (m, s)"
  shows "construct k [] [] =
      Inr \<lparr>cls = k, args = [PStr m], message = PStr m, status = PInt s, stacktrace = PNone\<rparr>
    \<and> construct k [PNone] [] = construct k [] []
    \<and> construct k [PStr []] [] = construct k [] []
    \<and> construct k [] [(''message'', PNone)] = construct k [] []
    \<and> construct k [] [(''message'', PStr [])] = construct k [] []
    \<and> (\<forall>pos kw e. construct k pos kw = Inr e \<longrightarrow> (\<exists>t. message e = PStr t \<and> t \<noteq> []))"
proof -
  have "\<exists>t. message e = PStr t \<and> t \<noteq> []" if "construct k pos kw = Inr e" for pos kw e
  proof -
    from construct_subtype_result [OF assms that] obtain msg
      where b: "bind_message_only pos kw = Inr msg" and e: "message e = py_or msg (PStr m)"
      by auto
    from b have "is_str_or_None msg" by (rule bind_message_only_str)
    moreover from assms have "m \<noteq> []" by (simp add: spec_default_bounds)
    ultimately show ?thesis unfolding e by (rule py_or_default)
  qed
  moreover have "construct k [] [] =
      Inr \<lparr>cls = k, args = [PStr m], message = PStr m, status = PInt s, stacktrace = PNone\<rparr>"
    using assms by (cases k) (auto simp: init_defs arg_defs)
  moreover have "construct k [PNone] [] = construct k [] []"
    using assms by (cases k) (auto simp: init_defs arg_defs)
  moreover have "construct k [PStr []] [] = construct k [] []"
    using assms by (cases k) (auto simp: init_defs arg_defs)
  moreover have "construct k [] [(''message'', PNone)] = construct k [] []"
    using assms by (cases k) (auto simp: init_defs arg_defs)
  moreover have "construct k [] [(''message'', PStr [])] = construct k [] []"
    using assms by (cases k) (auto simp: init_defs arg_defs)
  ultimately show ?thesis by blast
qed

theorem construct_message_default_nonempty_witness:
  "spec_default Unauthorized = Some (''Unauthorized'', 401)
   \<and> construct Unauthorized [PStr []] [] =
       Inr \<lparr>cls = Unauthorized, args = [PStr ''Unauthorized''],
            message = PStr ''Unauthorized'', status = PInt 401, stacktrace = PNone\<rparr>
   \<and> construct Unauthorized [] [(''message'', PNone)] =
       Inr \<lparr>cls = Unauthorized, args = [PStr ''Unauthorized''],
            message = PStr ''Unauthorized'', status = PInt 401, stacktrace = PNone\<rparr>
   \<and> construct Unauthorized [PStr ''no token''] [] =
       Inr \<lparr>cls = Unauthorized, args = [PStr ''no token''],
            message = PStr ''no token'', status = PInt 401, stacktrace = PNone\<rparr>
   \<and> ''no token'' \<noteq> []"
proof -
  have h: "spec_default Unauthorized = Some (''Unauthorized'', 401)" by simp
  show ?thesis
    using h construct_message_default_nonempty [OF h]
    by (simp add: Unauthorized_init_def arg_defs)
qed

section \<open>Status of the subtypes\<close>

text \<open>
  Claim C1, as stated, fails: the constructor of \<^verbatim>\<open>ConfigError\<close> has the single
  parameter \<^verbatim>\<open>message\<close>, so a call with \<^verbatim>\<open>status=503\<close> raises \<^verbatim>\<open>TypeError\<close>
  instead of returning an instance with status 503; so does a call with 503 as a second
  positional argument.
\<close>

theorem ConfigError_status_503_rejected:
  "construct ConfigError [] [(''status'', PInt 503)] = Inl TypeError
   \<and> construct ConfigError [PNone, PInt 503] [] = Inl TypeError"
  by (simp add: ConfigError_init_def bind_message_only_def)

text \<open>
  Claim C1, amended. For each of the seven named subtypes the constructor takes the
  message only: a call that supplies a status, as a keyword or as a second positional
  argument, raises \<^verbatim>\<open>TypeError\<close>, and every instance that is constructed has the
  subtype's default status.
\<close>

theorem subtype_status_not_accepted:
  assumes "spec_default k = Some (m, s)"
  shows "(map_of kw ''status'' \<noteq> None \<longrightarrow> construct k pos kw = Inl TypeError)
    \<and> (2 \<le> length pos \<longrightarrow> construct k pos kw = Inl TypeError)
    \<and> (\<forall>e. construct k pos kw = Inr e \<longrightarrow> status e = PInt s)"
  using assms
  by (auto simp: subtype_unexpected_keyword subtype_too_many_positional
      dest: construct_subtype_result)

theorem subtype_status_not_accepted_witness:
  "spec_default ConfigError = Some (''Auth Configuration Error.'', 500)
   \<and> map_of [(''status'', PInt 503)] ''status'' \<noteq> None
   \<and> construct ConfigError [] [(''status'', PInt 503)] = Inl TypeError
   \<and> 2 \<le> length [PStr ''down'', PInt 503]
   \<and> construct ConfigError [PStr ''down'', PInt 503] [] = Inl TypeError
   \<and> construct ConfigError [PStr ''down''] [] =
       Inr \<lparr>cls = ConfigError, args = [PStr ''down''], message = PStr ''down'',
            status = PInt 500, stacktrace = PNone\<rparr>
   \<and> status \<lparr>cls = ConfigError, args = [PStr ''down''], message = PStr ''down'',
            status = PInt 500, stacktrace = PNone\<rparr> = PInt 500"
proof -
  have h: "spec_default ConfigError = Some (''Auth Configuration Error.'', 500)" by simp
  show ?thesis
    using h
      subtype_status_not_accepted [OF h, of "[(''status'', PInt 503)]" "[]"]
      subtype_status_not_accepted [OF h, of "[]" "[PStr ''down'', PInt 503]"]
      subtype_status_not_accepted [OF h, of "[]" "[PStr ''down'']"]
    by (simp add: ConfigError_init_def arg_defs)
qed

text \<open>
  Claim C8. After every construction that returns an instance, of the base class or of
  a subtype, \<^verbatim>\<open>status\<close> is an integer (within the range of a C \<^verbatim>\<open>int\<close>). On the
  base class it is 400 when no status is supplied; a supplied status is an \<^verbatim>\<open>int\<close>,
  a \<^verbatim>\<open>bool\<close> or a finite \<^verbatim>\<open>float\<close>, and the stored status is that integer itself,
  0 or 1 for \<^verbatim>\<open>False\<close> or \<^verbatim>\<open>True\<close>, and the float with its fractional part dropped
  (rounded towards zero). On each subtype it is the tabulated default.
\<close>

theorem status_integer_valued:
  assumes "construct k pos kw = Inr e"
  shows "(\<exists>n. status e = PInt n \<and> - (2 ^ 31) \<le> n \<and> n < 2 ^ 31)
    \<and> (k = AuthException \<and> length pos < 2 \<and> map_of kw ''status'' = None \<longrightarrow> status e = PInt 400)
    \<and> (\<forall>v. k = AuthException \<and> (positional pos 1 = Some v \<or> map_of kw ''status'' = Some v) \<longrightarrow>
          (\<exists>i. v = PInt i) \<or> (\<exists>b. v = PBool b) \<or> (\<exists>x. v = PFloat (Finite x)))
    \<and> (\<forall>i. k = AuthException \<and>
            (positional pos 1 = Some (PInt i) \<or> map_of kw ''status'' = Some (PInt i)) \<longrightarrow>
          status e = PInt i)
    \<and> (\<forall>b. k = AuthException \<and>
            (positional pos 1 = Some (PBool b) \<or> map_of kw ''status'' = Some (PBool b)) \<longrightarrow>
          status e = PInt (if b then 1 else 0))
    \<and> (\<forall>x. k = AuthException \<and>
            (positional pos 1 = Some (PFloat (Finite x)) \<or>
             map_of kw ''status'' = Some (PFloat (Finite x))) \<longrightarrow>
          status e = PInt (if 0 \<le> x then \<lfloor>x\<rfloor> else \<lceil>x\<rceil>))
    \<and> (\<forall>m s. spec_default k = Some (m, s) \<longrightarrow> status e = PInt s)"
proof -
  have sub: "status e = PInt s" if "spec_default k = Some (m, s)" for m s
    using construct_subtype_result [OF that assms] by auto
  have base: "\<exists>st n. bind_param ''status'' (positional pos 1) kw (Some (PInt 400)) = Inr st \<and>
      as_c_int st = Inr n \<and> status e = PInt n" if "k = AuthException"
    using base_result [of pos kw e] assms that by auto
  have rng: "\<exists>n. status e = PInt n \<and> - (2 ^ 31) \<le> n \<and> n < 2 ^ 31"
  proof (cases "spec_default k")
    case None
    then have "k = AuthException" by (cases k) simp_all
    from base [OF this] show ?thesis by (auto dest: as_c_int_range)
  next
    case (Some d)
    then obtain m s where d: "spec_default k = Some (m, s)" by (cases d) simp
    with sub [OF d] spec_default_bounds [OF d] show ?thesis by blast
  qed
  have dflt: "status e = PInt 400"
    if "k = AuthException" and "length pos < 2" and "map_of kw ''status'' = None"
    using base [OF that(1)] that(2,3)
    by (auto simp: bind_param_def positional_def as_c_int_def to_c_int_def)
  have coerce: "\<exists>n. as_c_int v = Inr n \<and> status e = PInt n"
    if "k = AuthException" and "positional pos 1 = Some v \<or> map_of kw ''status'' = Some v" for v
    using base [OF that(1)] that(2)
    by (auto simp: bind_param_def split: option.splits if_splits)
  have shape: "(\<exists>i. v = PInt i) \<or> (\<exists>b. v = PBool b) \<or> (\<exists>x. v = PFloat (Finite x))"
    if "k = AuthException" and "positional pos 1 = Some v \<or> map_of kw ''status'' = Some v" for v
  proof -
    from coerce [OF that] obtain n where n: "as_c_int v = Inr n" by blast
    show ?thesis
    proof (cases v)
      case (PFloat f)
      with n show ?thesis by (cases f) (simp_all add: as_c_int_def)
    qed (use n in \<open>simp_all add: as_c_int_def\<close>)
  qed
  have of_int: "status e = PInt i"
    if "k = AuthException"
      and "positional pos 1 = Some (PInt i) \<or> map_of kw ''status'' = Some (PInt i)" for i
    using coerce [OF that] by (auto simp: as_c_int_def to_c_int_def split: if_splits)
  have of_bool: "status e = PInt (if b then 1 else 0)"
    if "k = AuthException"
      and "positional pos 1 = Some (PBool b) \<or> map_of kw ''status'' = Some (PBool b)" for b
    using coerce [OF that] by (auto simp: as_c_int_def)
  have of_float: "status e = PInt (if 0 \<le> x then \<lfloor>x\<rfloor> else \<lceil>x\<rceil>)"
    if "k = AuthException"
      and "positional pos 1 = Some (PFloat (Finite x)) \<or>
           map_of kw ''status'' = Some (PFloat (Finite x))" for x
    using coerce [OF that]
    by (auto simp: as_c_int_def to_c_int_def float_trunc_def split: if_splits)
  show ?thesis
  proof (intro conjI allI impI)
    show "\<exists>n. status e = PInt n \<and> - (2 ^ 31) \<le> n \<and> n < 2 ^ 31" by (rule rng)
  next
    fix v
    assume "k = AuthException \<and> (positional pos 1 = Some v \<or> map_of kw ''status'' = Some v)"
    then show "(\<exists>i. v = PInt i) \<or> (\<exists>b. v = PBool b) \<or> (\<exists>x. v = PFloat (Finite x))"
      using shape by blast
  next
    fix i
    assume "k = AuthException \<and>
      (positional pos 1 = Some (PInt i) \<or> map_of kw ''status'' = Some (PInt i))"
    then show "status e = PInt i" using of_int by blast
  next
    fix b
    assume "k = AuthException \<and>
      (positional pos 1 = Some (PBool b) \<or> map_of kw ''status'' = Some (PBool b))"
    then show "status e = PInt (if b then 1 else 0)" using of_bool by blast
  next
    fix x
    assume "k = AuthException \<and>
      (positional pos 1 = Some (PFloat (Finite x)) \<or>
       map_of kw ''status'' = Some (PFloat (Finite x)))"
    then show "status e = PInt (if 0 \<le> x then \<lfloor>x\<rfloor> else \<lceil>x\<rceil>)" using of_float by blast
  qed (auto intro: dflt sub)
qed

theorem status_integer_valued_witness:
  "construct AuthException [PStr ''m'', PBool True] [] =
       Inr \<lparr>cls = AuthException, args = [PStr ''m''], message = PStr ''m'',
            status = PInt 1, stacktrace = PNone\<rparr>
   \<and> positional [PStr ''m'', PBool True] 1 = Some (PBool True)
   \<and> construct AuthException [PStr ''m'', PBool False] [] =
       Inr \<lparr>cls = AuthException, args = [PStr ''m''], message = PStr ''m'',
            status = PInt 0, stacktrace = PNone\<rparr>
   \<and> construct AuthException [PStr ''m'', PFloat (Finite (9 / 2))] [] =
       Inr \<lparr>cls = AuthException, args = [PStr ''m''], message = PStr ''m'',
            status = PInt 4, stacktrace = PNone\<rparr>
   \<and> positional [PStr ''m'', PFloat (Finite (9 / 2))] 1 = Some (PFloat (Finite (9 / 2)))
   \<and> construct AuthException [PStr ''m''] [(''status'', PFloat (Finite (- 9 / 2)))] =
       Inr \<lparr>cls = AuthException, args = [PStr ''m''], message = PStr ''m'',
            status = PInt (- 4), stacktrace = PNone\<rparr>
   \<and> construct AuthException [PStr ''m'', PInt 418] [] =
       Inr \<lparr>cls = AuthException, args = [PStr ''m''], message = PStr ''m'',
            status = PInt 418, stacktrace = PNone\<rparr>
   \<and> construct AuthException [PStr ''m''] [] =
       Inr \<lparr>cls = AuthException, args = [PStr ''m''], message = PStr ''m'',
            status = PInt 400, stacktrace = PNone\<rparr>
   \<and> length [PStr ''m''] < 2
   \<and> map_of ([] :: kwargs) ''status'' = None
   \<and> spec_default AuthExpired = Some (''Gone: Authentication Expired.'', 410)
   \<and> construct AuthExpired [] [] =
       Inr \<lparr>cls = AuthExpired, args = [PStr ''Gone: Authentication Expired.''],
            message = PStr ''Gone: Authentication Expired.'', status = PInt 410,
            stacktrace = PNone\<rparr>"
proof -
  have a: "construct AuthException [PStr ''m'', PBool True] [] =
       Inr \<lparr>cls = AuthException, args = [PStr ''m''], message = PStr ''m'',
            status = PInt 1, stacktrace = PNone\<rparr>"
    by (simp add: arg_defs)
  have a': "construct AuthException [PStr ''m'', PBool False] [] =
       Inr \<lparr>cls = AuthException, args = [PStr ''m''], message = PStr ''m'',
            status = PInt 0, stacktrace = PNone\<rparr>"
    by (simp add: arg_defs)
  have f: "construct AuthException [PStr ''m'', PFloat (Finite (9 / 2))] [] =
       Inr \<lparr>cls = AuthException, args = [PStr ''m''], message = PStr ''m'',
            status = PInt 4, stacktrace = PNone\<rparr>"
    by (simp add: arg_defs float_trunc_def)
  have f': "construct AuthException [PStr ''m''] [(''status'', PFloat (Finite (- 9 / 2)))] =
       Inr \<lparr>cls = AuthException, args = [PStr ''m''], message = PStr ''m'',
            status = PInt (- 4), stacktrace = PNone\<rparr>"
    by (simp add: arg_defs float_trunc_def)
  have i: "construct AuthException [PStr ''m'', PInt 418] [] =
       Inr \<lparr>cls = AuthException, args = [PStr ''m''], message = PStr ''m'',
            status = PInt 418, stacktrace = PNone\<rparr>"
    by (simp add: arg_defs)
  have b: "construct AuthException [PStr ''m''] [] =
       Inr \<lparr>cls = AuthException, args = [PStr ''m''], message = PStr ''m'',
            status = PInt 400, stacktrace = PNone\<rparr>"
    by (simp add: arg_defs)
  have c: "construct AuthExpired [] [] =
       Inr \<lparr>cls = AuthExpired, args = [PStr ''Gone: Authentication Expired.''],
            message = PStr ''Gone: Authentication Expired.'', status = PInt 410,
            stacktrace = PNone\<rparr>"
    by (simp add: AuthExpired_init_def arg_defs)
  show ?thesis
    using a a' f f' i b c status_integer_valued [OF a] status_integer_valued [OF a']
      status_integer_valued [OF f] status_integer_valued [OF f'] status_integer_valued [OF i]
      status_integer_valued [OF b] status_integer_valued [OF c]
    by (simp add: positional_def)
qed

section \<open>The classes of the module\<close>

text \<open>
  Claim C3, as stated, fails: the module derives seven classes from the base class,
  not eight, and so has eight classes, not nine.
\<close>

theorem not_nine_error_types:
  "\<not> (length subtypes = 8 \<and> length error_types = 9)"
  by (simp add: subtypes_def)

text \<open>
  Claim C3, amended. The module defines a base error type and seven named subtypes,
  eight distinct types in all and no other; each subtype, constructed without
  arguments, has its own default message and status.
\<close>

theorem error_taxonomy_size:
  "length subtypes = 7 \<and> length error_types = 8 \<and> distinct error_types
   \<and> set error_types = UNIV
   \<and> list_all
       (\<lambda>k. \<exists>m s. spec_default k = Some (m, s) \<and>
          construct k [] [] =
            Inr \<lparr>cls = k, args = [PStr m], message = PStr m, status = PInt s,
                 stacktrace = PNone\<rparr>)
       subtypes"
proof -
  have "set error_types = UNIV"
  proof (rule set_eqI)
    fix k :: kind
    show "k \<in> set error_types \<longleftrightarrow> k \<in> UNIV"
      by (cases k) (simp_all add: error_types_def subtypes_def)
  qed
  moreover have "length subtypes = 7" and "length error_types = 8" and "distinct error_types"
    by (simp_all add: error_types_def subtypes_def)
  moreover have "list_all
       (\<lambda>k. \<exists>m s. spec_default k = Some (m, s) \<and>
          construct k [] [] =
            Inr \<lparr>cls = k, args = [PStr m], message = PStr m, status = PInt s,
                 stacktrace = PNone\<rparr>)
       subtypes"
    by (simp add: subtypes_def init_defs arg_defs)
  ultimately show ?thesis by blast
qed

section \<open>The stacktrace option\<close>

text \<open>
  Claim C6, as stated, fails on the subtypes: their constructors take no keyword other
  than \<^verbatim>\<open>message\<close>, so supplying \<^verbatim>\<open>stacktrace\<close> raises \<^verbatim>\<open>TypeError\<close> and there
  is no instance to retrieve it from.
\<close>

theorem Unauthorized_stacktrace_rejected:
  "construct Unauthorized [] [(''stacktrace'', PStr ''traceback'')] = Inl TypeError"
  by (simp add: Unauthorized_init_def bind_message_only_def)

text \<open>
  Claim C6, amended. On the base class, a \<^verbatim>\<open>stacktrace\<close> keyword supplied at
  construction is the value of the instance's \<^verbatim>\<open>stacktrace\<close> afterwards, and without
  it \<^verbatim>\<open>stacktrace\<close> is \<^verbatim>\<open>None\<close>. The constructors of the seven subtypes reject a
  \<^verbatim>\<open>stacktrace\<close> keyword with \<^verbatim>\<open>TypeError\<close>, and the \<^verbatim>\<open>stacktrace\<close> of every
  subtype instance is \<^verbatim>\<open>None\<close>.
\<close>

theorem stacktrace_keyword:
  "(\<forall>e. construct AuthException pos kw = Inr e \<longrightarrow>
        stacktrace e = (case map_of kw ''stacktrace'' of Some v \<Rightarrow> v | None \<Rightarrow> PNone))
   \<and> construct AuthException [PStr t] [(''stacktrace'', v)] =
        Inr \<lparr>cls = AuthException, args = [PStr t], message = PStr t, status = PInt 400,
             stacktrace = v\<rparr>
   \<and> (spec_default k = Some (m, s) \<longrightarrow>
        (map_of kw ''stacktrace'' \<noteq> None \<longrightarrow> construct k pos kw = Inl TypeError)
        \<and> (\<forall>e. construct k pos kw = Inr e \<longrightarrow> stacktrace e = PNone))"
proof -
  have "stacktrace e = (case map_of kw ''stacktrace'' of Some v \<Rightarrow> v | None \<Rightarrow> PNone)"
    if "construct AuthException pos kw = Inr e" for e
    using base_result [OF that] by auto
  moreover have "construct AuthException [PStr t] [(''stacktrace'', v)] =
        Inr \<lparr>cls = AuthException, args = [PStr t], message = PStr t, status = PInt 400,
             stacktrace = v\<rparr>"
    by (simp add: arg_defs)
  moreover have "construct k pos kw = Inl TypeError"
    if "spec_default k = Some (m, s)" and "map_of kw ''stacktrace'' \<noteq> None"
    using that by (simp add: subtype_unexpected_keyword)
  moreover have "stacktrace e = PNone"
    if "spec_default k = Some (m, s)" and "construct k pos kw = Inr e" for e
    using construct_subtype_result [OF that] by auto
  ultimately show ?thesis by blast
qed

theorem stacktrace_keyword_witness:
  "construct AuthException [PStr ''m''] [(''stacktrace'', PStr ''traceback'')] =
       Inr \<lparr>cls = AuthException, args = [PStr ''m''], message = PStr ''m'',
            status = PInt 400, stacktrace = PStr ''traceback''\<rparr>
   \<and> construct AuthException [PStr ''m''] [] =
       Inr \<lparr>cls = AuthException, args = [PStr ''m''], message = PStr ''m'',
            status = PInt 400, stacktrace = PNone\<rparr>
   \<and> spec_default FailedAuth = Some (''Failed Authorization'', 403)
   \<and> map_of [(''stacktrace'', PStr ''traceback'')] ''stacktrace'' \<noteq> None
   \<and> construct FailedAuth [] [(''stacktrace'', PStr ''traceback'')] = Inl TypeError
   \<and> construct FailedAuth [] [] =
       Inr \<lparr>cls = FailedAuth, args = [PStr ''Failed Authorization''],
            message = PStr ''Failed Authorization'', status = PInt 403, stacktrace = PNone\<rparr>"
  using
    stacktrace_keyword [of "[PStr ''m'']" "[(''stacktrace'', PStr ''traceback'')]" "''m''"
      "PStr ''traceback''" FailedAuth "''Failed Authorization''" 403]
    stacktrace_keyword [of "[PStr ''m'']" "[]" "''m''" PNone FailedAuth
      "''Failed Authorization''" 403]
    stacktrace_keyword [of "[]" "[]" "''m''" PNone FailedAuth "''Failed Authorization''" 403]
  by (simp add: FailedAuth_init_def arg_defs)

text \<open>
  Claim C10. Constructing the base class with extra keywords (keywords that name
  neither parameter) succeeds whenever the call without them does, and yields the same
  instance except for \<^verbatim>\<open>stacktrace\<close>, which is the value of the \<^verbatim>\<open>stacktrace\<close>
  keyword when there is one and \<^verbatim>\<open>None\<close> otherwise: every other keyword is ignored.
\<close>

theorem base_extra_keywords_ignored:
  assumes "map_of extra ''message'' = None" and "map_of extra ''status'' = None"
    and "construct AuthException pos kw = Inr e"
  shows "construct AuthException pos (kw @ extra) =
    Inr (e\<lparr>stacktrace :=
             (case map_of (kw @ extra) ''stacktrace'' of Some v \<Rightarrow> v | None \<Rightarrow> PNone)\<rparr>)"
proof -
  from base_result [OF assms(3)] obtain msg st n
    where "bind_param ''message'' (positional pos 0) kw None = Inr msg"
      and "bind_param ''status'' (positional pos 1) kw (Some (PInt 400)) = Inr st"
      and "as_c_int st = Inr n" and "is_str_or_None msg" and "length pos \<le> 2"
      and "e = \<lparr>cls = AuthException, args = [msg], message = msg, status = PInt n,
                 stacktrace = (case map_of kw ''stacktrace'' of Some v \<Rightarrow> v | None \<Rightarrow> PNone)\<rparr>"
    by blast
  then show ?thesis
    by (simp add: AuthException_init_lookup bind_param_append [OF assms(1)]
        bind_param_append [OF assms(2)] del: map_of_append)
qed

theorem base_extra_keywords_ignored_witness:
  "map_of [(''retry'', PInt 3), (''stacktrace'', PStr ''traceback'')] ''message'' = None
   \<and> map_of [(''retry'', PInt 3), (''stacktrace'', PStr ''traceback'')] ''status'' = None
   \<and> construct AuthException [PStr ''teapot'', PInt 418] [] =
       Inr \<lparr>cls = AuthException, args = [PStr ''teapot''], message = PStr ''teapot'',
            status = PInt 418, stacktrace = PNone\<rparr>
   \<and> construct AuthException [PStr ''teapot'', PInt 418]
         [(''retry'', PInt 3), (''stacktrace'', PStr ''traceback'')] =
       Inr \<lparr>cls = AuthException, args = [PStr ''teapot''], message = PStr ''teapot'',
            status = PInt 418, stacktrace = PStr ''traceback''\<rparr>"
proof -
  have m: "map_of [(''retry'', PInt 3), (''stacktrace'', PStr ''traceback'')] ''message'' = None"
    by simp
  have s: "map_of [(''retry'', PInt 3), (''stacktrace'', PStr ''traceback'')] ''status'' = None"
    by simp
  have c: "construct AuthException [PStr ''teapot'', PInt 418] [] =
       Inr \<lparr>cls = AuthException, args = [PStr ''teapot''], message = PStr ''teapot'',
            status = PInt 418, stacktrace = PNone\<rparr>"
    by (simp add: arg_defs)
  show ?thesis using m s c base_extra_keywords_ignored [OF m s c] by simp
qed

section \<open>Reading an instance\<close>

text \<open>
  Claim C7. On every constructed instance, of the base class or a subtype, \<^verbatim>\<open>get()\<close>
  returns exactly the stored message and leaves the instance as it was; it has no
  failing branch.
\<close>

theorem get_returns_message:
  assumes "construct k pos kw = Inr e"
  shows "fst (AuthException_get e) = message e \<and> snd (AuthException_get e) = e"
  by (simp add: AuthException_get_def)

theorem get_returns_message_witness:
  "construct InvalidAuth [] [] =
       Inr \<lparr>cls = InvalidAuth, args = [PStr ''Invalid Authentication''],
            message = PStr ''Invalid Authentication'', status = PInt 401, stacktrace = PNone\<rparr>
   \<and> AuthException_get
        \<lparr>cls = InvalidAuth, args = [PStr ''Invalid Authentication''],
         message = PStr ''Invalid Authentication'', status = PInt 401, stacktrace = PNone\<rparr> =
       (PStr ''Invalid Authentication'',
        \<lparr>cls = InvalidAuth, args = [PStr ''Invalid Authentication''],
         message = PStr ''Invalid Authentication'', status = PInt 401, stacktrace = PNone\<rparr>)"
proof -
  have c: "construct InvalidAuth [] [] =
       Inr \<lparr>cls = InvalidAuth, args = [PStr ''Invalid Authentication''],
            message = PStr ''Invalid Authentication'', status = PInt 401, stacktrace = PNone\<rparr>"
    by (simp add: InvalidAuth_init_def arg_defs)
  show ?thesis using c get_returns_message [OF c] by (simp add: prod_eq_iff)
qed

text \<open>
  Claim C9. The read operations do not change an instance: on every constructed
  instance \<^verbatim>\<open>get()\<close> and string conversion return it with \<^verbatim>\<open>message\<close>,
  \<^verbatim>\<open>status\<close> and \<^verbatim>\<open>stacktrace\<close> (and every other field) as they were, and string
  conversion yields the module name, a colon and a space, and the message (\<^verbatim>\<open>None\<close>
  printed as such).
\<close>

theorem reads_leave_instance_unchanged:
  assumes "construct k pos kw = Inr e"
  shows "snd (AuthException_get e) = e \<and> snd (AuthException_str float_repr e) = e
    \<and> fst (AuthException_str float_repr e) =
        py_module_name @ '': '' @ (case message e of PStr t \<Rightarrow> t | _ \<Rightarrow> ''None'')"
  using constructed_message [OF assms]
  by (cases "message e")
    (simp_all add: AuthException_get_def AuthException_str_def format_value_def is_str_or_None_def)

theorem reads_leave_instance_unchanged_witness:
  "construct Forbidden [PStr ''nope''] [] =
       Inr \<lparr>cls = Forbidden, args = [PStr ''nope''], message = PStr ''nope'',
            status = PInt 403, stacktrace = PNone\<rparr>
   \<and> AuthException_str (\<lambda>x. ''0.0'')
        \<lparr>cls = Forbidden, args = [PStr ''nope''], message = PStr ''nope'',
         status = PInt 403, stacktrace = PNone\<rparr> =
       (''navigator_auth.exceptions: nope'',
        \<lparr>cls = Forbidden, args = [PStr ''nope''], message = PStr ''nope'',
         status = PInt 403, stacktrace = PNone\<rparr>)
   \<and> snd (AuthException_get
        \<lparr>cls = Forbidden, args = [PStr ''nope''], message = PStr ''nope'',
         status = PInt 403, stacktrace = PNone\<rparr>) =
        \<lparr>cls = Forbidden, args = [PStr ''nope''], message = PStr ''nope'',
         status = PInt 403, stacktrace = PNone\<rparr>"
proof -
  have c: "construct Forbidden [PStr ''nope''] [] =
       Inr \<lparr>cls = Forbidden, args = [PStr ''nope''], message = PStr ''nope'',
            status = PInt 403, stacktrace = PNone\<rparr>"
    by (simp add: Forbidden_init_def arg_defs)
  show ?thesis
    using c reads_leave_instance_unchanged [OF c, of "\<lambda>x. ''0.0''"]
    by (simp add: prod_eq_iff py_module_name_def)
qed

end
